theory Spec2Isabelle
  imports Main
begin

section \<open>JavaScript strings\<close>

text \<open>
  A JavaScript string is a sequence of UTF-16 code units. The model uses \<^typ>\<open>string\<close>,
  whose characters are the code units U+0000 to U+00FF (Latin-1); the string methods below
  are the ECMAScript ones restricted to that range.
\<close>

definition isWhiteSpace :: "char \<Rightarrow> bool" where
  \<comment> \<open>WhiteSpace and LineTerminator code units below U+0100: TAB, LF, VT, FF, CR, SP, NBSP.\<close>
  "isWhiteSpace c =
     (c = CHR 0x09 \<or> c = CHR 0x0A \<or> c = CHR 0x0B \<or> c = CHR 0x0C \<or> c = CHR 0x0D \<or>
      c = CHR 0x20 \<or> c = CHR 0xA0)"

definition trim :: "string \<Rightarrow> string" where
  \<comment> \<open>\<^verbatim>\<open>String.prototype.trim\<close>\<close>
  "trim s = rev (dropWhile isWhiteSpace (rev (dropWhile isWhiteSpace s)))"

definition isUpper :: "char \<Rightarrow> bool" where
  \<comment> \<open>A-Z, and the Latin-1 capitals U+00C0-U+00D6 and U+00D8-U+00DE.\<close>
  "isUpper c =
     (let n = (of_char c :: nat)
      in (65 \<le> n \<and> n \<le> 90) \<or> (192 \<le> n \<and> n \<le> 214) \<or> (216 \<le> n \<and> n \<le> 222))"

definition lowerChar :: "char \<Rightarrow> char" where
  "lowerChar c = (if isUpper c then char_of ((of_char c :: nat) + 32) else c)"

definition toLowerCase :: "string \<Rightarrow> string" where
  \<comment> \<open>\<^verbatim>\<open>String.prototype.toLowerCase\<close>\<close>
  "toLowerCase s = map lowerChar s"

definition startsWith :: "string \<Rightarrow> string \<Rightarrow> bool" where
  "startsWith s p = (take (length p) s = p)"

fun str_includes :: "string \<Rightarrow> string \<Rightarrow> bool" where
  \<comment> \<open>\<^verbatim>\<open>s.includes(p)\<close>: \<open>p\<close> occurs in \<open>s\<close> at some position.\<close>
  "str_includes [] p = (p = [])"
| "str_includes (c # cs) p = (startsWith (c # cs) p \<or> str_includes cs p)"

section \<open>Verdict classification (content.js, DOMParser.isSubmissionAccepted)\<close>

definition acceptedKeywords :: "string list" where
  "acceptedKeywords =
     [''accepted'', ''success'', ''all test cases passed'',
      ''congratulations'', ''passed'', ''successfully'']"

definition rejectedKeywords :: "string list" where
  "rejectedKeywords =
     [''wrong answer'', ''runtime error'', ''timeout'', ''failed'', ''error'']"

text \<open>
  The argument is the result panel: \<open>None\<close> is a missing element (\<^verbatim>\<open>!element\<close>), and
  an element carries its \<^verbatim>\<open>textContent\<close>, which may be null.
\<close>

definition isSubmissionAccepted :: "string option option \<Rightarrow> bool" where
  "isSubmissionAccepted element =
     (case element of
        None \<Rightarrow> False
      | Some textContent \<Rightarrow>
          (let text = (case textContent of None \<Rightarrow> [] | Some t \<Rightarrow> toLowerCase t)
           in if list_ex (\<lambda>kw. str_includes text kw) rejectedKeywords then False
              else list_ex (\<lambda>kw. str_includes text kw) acceptedKeywords))"

section \<open>Property lookup on object literals\<close>

text \<open>
  The tables of the program are object literals whose values are strings, read with
  \<^verbatim>\<open>table[key]\<close>. Such a read finds the literal's own properties first and then the
  properties every object inherits from \<^verbatim>\<open>Object.prototype\<close>, whose values are
  functions (or, for \<^verbatim>\<open>__proto__\<close>, the prototype object): truthy values that are not
  strings. A value of the program is therefore a string or one of these inherited members,
  named by its key.
\<close>

datatype jsval = Str string | Inherited string

text \<open>
  The errors the program raises: a \<^verbatim>\<open>TypeError\<close> of the language, the three errors of
  \<^verbatim>\<open>handlePushToGitHub\<close> (named after their messages), a rejected fetch, and
  \<^verbatim>\<open>GitHub API error: <status>\<close> with the status of the response.
\<close>

datatype error =
    TypeError
  | ConfigMissing
  | CredentialInvalid
  | InvalidRepoFormat
  | NetworkError
  | ApiError nat

definition objectPrototypeKeys :: "string list" where
  "objectPrototypeKeys =
     [''constructor'', ''__proto__'', ''hasOwnProperty'', ''isPrototypeOf'',
      ''propertyIsEnumerable'', ''toLocaleString'', ''toString'', ''valueOf'',
      ''__defineGetter__'', ''__defineSetter__'', ''__lookupGetter__'', ''__lookupSetter__'']"

definition literalGet :: "(string \<times> string) list \<Rightarrow> string \<Rightarrow> jsval option" where
  \<comment> \<open>\<^verbatim>\<open>table[key]\<close>; \<open>None\<close> is \<^verbatim>\<open>undefined\<close>.\<close>
  "literalGet table key =
     (case map_of table key of
        Some v \<Rightarrow> Some (Str v)
      | None \<Rightarrow> if key \<in> set objectPrototypeKeys then Some (Inherited key) else None)"

fun truthy :: "jsval \<Rightarrow> bool" where
  "truthy (Str s) = (s \<noteq> [])"
| "truthy (Inherited k) = True"

definition getOr :: "(string \<times> string) list \<Rightarrow> string \<Rightarrow> jsval \<Rightarrow> jsval" where
  \<comment> \<open>\<^verbatim>\<open>table[key] || dflt\<close>\<close>
  "getOr table key dflt =
     (case literalGet table key of
        None \<Rightarrow> dflt
      | Some v \<Rightarrow> if truthy v then v else dflt)"

section \<open>Language normalisation (DOMParser.normalizeLanguage)\<close>

definition languageMap :: "(string \<times> string) list" where
  \<comment> \<open>the table of content.js\<close>
  "languageMap =
     [(''python3'', ''python3''), (''python'', ''python3''), (''py'', ''python3''),
      (''java'', ''java''),
      (''javascript'', ''javascript''), (''js'', ''javascript''),
      (''cpp'', ''cpp''), (''c++'', ''cpp''), (''c'', ''c''),
      (''csharp'', ''csharp''), (''cs'', ''csharp''),
      (''go'', ''go''), (''golang'', ''go''),
      (''ruby'', ''ruby''), (''rb'', ''ruby''),
      (''swift'', ''swift''), (''kotlin'', ''kotlin''), (''scala'', ''scala''),
      (''rust'', ''rust''),
      (''php'', ''php''), (''typescript'', ''typescript''), (''ts'', ''typescript''),
      (''r'', ''r''), (''sql'', ''sql''), (''bash'', ''bash''), (''shell'', ''bash'')]"

definition languageMap_api :: "(string \<times> string) list" where
  \<comment> \<open>the table of the content script that reads submissions from the REST API\<close>
  "languageMap_api =
     [(''python3'', ''python3''), (''python'', ''python3''), (''py'', ''python3''),
      (''python2'', ''python''),
      (''java'', ''java''), (''java8'', ''java''), (''java7'', ''java''),
      (''java15'', ''java''),
      (''javascript'', ''javascript''), (''js'', ''javascript''), (''node'', ''javascript''),
      (''cpp'', ''cpp''), (''cpp14'', ''cpp''), (''cpp11'', ''cpp''), (''c++'', ''cpp''),
      (''c'', ''c''),
      (''csharp'', ''csharp''), (''cs'', ''csharp''),
      (''go'', ''go''), (''golang'', ''go''),
      (''ruby'', ''ruby''), (''rb'', ''ruby''),
      (''swift'', ''swift''), (''kotlin'', ''kotlin''), (''scala'', ''scala''),
      (''rust'', ''rust''),
      (''php'', ''php''), (''typescript'', ''typescript''), (''ts'', ''typescript''),
      (''r'', ''r''), (''sql'', ''sql''), (''bash'', ''bash''), (''shell'', ''bash'')]"

definition normalizeWith :: "(string \<times> string) list \<Rightarrow> jsval \<Rightarrow> error + jsval" where
  \<comment> \<open>The body shared by both scripts; a value that is not a string has no
      \<^verbatim>\<open>toLowerCase\<close> method, and the call raises.\<close>
  "normalizeWith table lang =
     (case lang of
        Inherited k \<Rightarrow> Inl TypeError
      | Str s \<Rightarrow>
          (let normalized = trim (toLowerCase s)
           in Inr (getOr table normalized (Str normalized))))"

definition normalizeLanguage :: "jsval \<Rightarrow> error + jsval" where
  "normalizeLanguage lang = normalizeWith languageMap lang"

definition normalizeLanguage_api :: "jsval \<Rightarrow> error + jsval" where
  "normalizeLanguage_api lang = normalizeWith languageMap_api lang"

section \<open>Code clean-up (content.js, DOMParser.cleanCode)\<close>

definition isDigit :: "char \<Rightarrow> bool" where
  \<comment> \<open>the regular-expression class \<^verbatim>\<open>\d\<close>\<close>
  "isDigit c = (48 \<le> (of_char c :: nat) \<and> (of_char c :: nat) \<le> 57)"

fun indexOf :: "string \<Rightarrow> string \<Rightarrow> nat option" where
  \<comment> \<open>\<^verbatim>\<open>s.indexOf(p)\<close>; \<open>None\<close> is the result -1.\<close>
  "indexOf [] p = (if p = [] then Some 0 else None)"
| "indexOf (c # cs) p =
     (if startsWith (c # cs) p then Some 0 else map_option Suc (indexOf cs p))"

definition cleanCode :: "string \<Rightarrow> string" where
  "cleanCode code =
     (if code = [] then code
      else
        let code1 =
          (if 10 \<le> length (takeWhile isDigit code)
           then (case indexOf code ''#!/'' of
                   Some shebangIndex \<Rightarrow>
                     if shebangIndex < 50 then drop shebangIndex code
                     else dropWhile isDigit code
                 | None \<Rightarrow> dropWhile isDigit code)
           else code)
        in trim code1)"

section \<open>Path generation (github-api.js, GitHubAPI.generateFilePath)\<close>

definition isAlnumLower :: "char \<Rightarrow> bool" where
  \<comment> \<open>the regular-expression class \<^verbatim>\<open>[a-z0-9]\<close>\<close>
  "isAlnumLower c =
     (let n = (of_char c :: nat) in (97 \<le> n \<and> n \<le> 122) \<or> (48 \<le> n \<and> n \<le> 57))"

fun collapseRuns :: "(char \<Rightarrow> bool) \<Rightarrow> char \<Rightarrow> bool \<Rightarrow> string \<Rightarrow> string" where
  \<comment> \<open>\<^verbatim>\<open>s.replace(/P+/g, r)\<close>: every maximal run of characters in the class \<open>P\<close> becomes
      the one character \<open>r\<close>. The flag says that the previous character was in the run.\<close>
  "collapseRuns P r inRun [] = []"
| "collapseRuns P r inRun (c # cs) =
     (if P c then (if inRun then collapseRuns P r True cs else r # collapseRuns P r True cs)
      else c # collapseRuns P r False cs)"

definition stripHyphens :: "string \<Rightarrow> string" where
  \<comment> \<open>\<^verbatim>\<open>s.replace(/^-|-$/g, '')\<close>: one hyphen at the start and one at the end.\<close>
  "stripHyphens s =
     (let s1 = (case s of [] \<Rightarrow> [] | c # cs \<Rightarrow> if c = CHR ''-'' then cs else s)
      in if s1 \<noteq> [] \<and> last s1 = CHR ''-'' then butlast s1 else s1)"

definition sanitize :: "string \<Rightarrow> string" where
  \<comment> \<open>\<^verbatim>\<open>.toLowerCase().replace(/[^a-z0-9]+/g, '-').replace(/^-|-$/g, '')\<close>\<close>
  "sanitize s =
     stripHyphens (collapseRuns (\<lambda>c. \<not> isAlnumLower c) CHR ''-'' False (toLowerCase s))"

fun getSubstitution :: "string \<Rightarrow> string \<Rightarrow> string \<Rightarrow> string \<Rightarrow> string" where
  \<comment> \<open>The replacement text of \<^verbatim>\<open>String.prototype.replace\<close> for a pattern without capture
      groups: \<^verbatim>\<open>$$\<close> is a dollar sign, \<^verbatim>\<open>$&\<close> the matched text, \<^verbatim>\<open>$`\<close> and \<^verbatim>\<open>$'\<close> the text
      before and after the match; any other character stands for itself.\<close>
  "getSubstitution matched pre post [] = []"
| "getSubstitution matched pre post [c] = [c]"
| "getSubstitution matched pre post (c # d # r) =
     (if c = CHR ''$'' \<and> d = CHR ''$'' then CHR ''$'' # getSubstitution matched pre post r
      else if c = CHR ''$'' \<and> d = CHR ''&'' then matched @ getSubstitution matched pre post r
      else if c = CHR ''$'' \<and> d = CHR 0x60 then pre @ getSubstitution matched pre post r
      else if c = CHR ''$'' \<and> d = CHR 0x27 then post @ getSubstitution matched pre post r
      else c # getSubstitution matched pre post (d # r))"

fun replaceFrom :: "string \<Rightarrow> string \<Rightarrow> string \<Rightarrow> nat \<Rightarrow> string \<Rightarrow> string" where
  \<comment> \<open>The scan of a global replace of the literal text \<open>pat\<close>: \<open>pre\<close> is the input
      read so far, \<open>skip\<close> the number of characters of the current match still to pass.\<close>
  "replaceFrom pat repl pre skip [] = []"
| "replaceFrom pat repl pre (Suc k) (c # cs) = replaceFrom pat repl (pre @ [c]) k cs"
| "replaceFrom pat repl pre 0 (c # cs) =
     (if startsWith (c # cs) pat
      then getSubstitution pat pre (drop (length pat) (c # cs)) repl
             @ replaceFrom pat repl (pre @ [c]) (length pat - 1) cs
      else c # replaceFrom pat repl (pre @ [c]) 0 cs)"

definition replaceAll :: "string \<Rightarrow> string \<Rightarrow> string \<Rightarrow> string" where
  \<comment> \<open>\<^verbatim>\<open>s.replace(/pat/g, repl)\<close> for a pattern that matches the literal text \<open>pat\<close>\<close>
  "replaceAll pat repl s = replaceFrom pat repl [] 0 s"

definition toStringOpt :: "string option \<Rightarrow> string" where
  \<comment> \<open>ToString of a value that is a string or \<^verbatim>\<open>undefined\<close>\<close>
  "toStringOpt v = (case v of None \<Rightarrow> ''undefined'' | Some s \<Rightarrow> s)"

text \<open>The fields of the \<^verbatim>\<open>data\<close> argument; \<open>None\<close> is a field the caller left out.\<close>

record pathData =
  category :: "string option"
  filename :: "string option"
  slug :: "string option"
  language :: "string option"

definition generateFilePath :: "string \<Rightarrow> pathData \<Rightarrow> error + string" where
  "generateFilePath template data =
     (case filename data of
        None \<Rightarrow> Inl TypeError
      | Some fname \<Rightarrow>
          (case slug data of
             None \<Rightarrow> Inl TypeError
           | Some sl \<Rightarrow>
               (let sanitizedFilename = sanitize fname;
                    sanitizedSlug = sanitize sl;
                    path =
                      replaceAll ''{language}'' (toStringOpt (language data))
                        (replaceAll ''{slug}'' sanitizedSlug
                          (replaceAll ''{filename}'' sanitizedFilename
                            (replaceAll ''{category}'' (toStringOpt (category data)) template)))
                in Inr (collapseRuns (\<lambda>c. c = CHR ''/'') CHR ''/'' False path))))"

section \<open>File extension and file header (service worker, github-api.js)\<close>

fun jsToString :: "jsval \<Rightarrow> string" where
  \<comment> \<open>ToString, as a template literal applies it. The inherited members are native
      functions, printed as V8 prints them, and the prototype object itself.\<close>
  "jsToString (Str s) = s"
| "jsToString (Inherited k) =
     (if k = ''__proto__'' then ''[object Object]''
      else ''function '' @ (if k = ''constructor'' then ''Object'' else k)
             @ ''() { [native code] }'')"

definition extensionMap :: "(string \<times> string) list" where
  "extensionMap =
     [(''python3'', ''py''), (''java'', ''java''), (''javascript'', ''js''),
      (''cpp'', ''cpp''), (''c'', ''c''), (''csharp'', ''cs''), (''go'', ''go''),
      (''ruby'', ''rb''), (''swift'', ''swift''), (''kotlin'', ''kt''),
      (''scala'', ''scala''), (''rust'', ''rs''), (''php'', ''php''),
      (''typescript'', ''ts''), (''r'', ''r''), (''sql'', ''sql''), (''bash'', ''sh'')]"

definition getFileExtension :: "string \<Rightarrow> jsval" where
  \<comment> \<open>\<^verbatim>\<open>extensionMap[language] || 'txt'\<close>\<close>
  "getFileExtension lang = getOr extensionMap lang (Str ''txt'')"

text \<open>A comment style; \<open>None\<close> is a property the style object does not have.\<close>

record commentStyle =
  style_start :: "string option"
  style_end :: "string option"
  style_line :: "string option"

definition blockStyle :: commentStyle where
  "blockStyle = \<lparr>style_start = Some ''/*'', style_end = Some ''*/'', style_line = Some '' * ''\<rparr>"

definition commentStyles :: "(string \<times> commentStyle) list" where
  "commentStyles =
     [(''python3'',
         \<lparr>style_start = Some [CHR 0x22, CHR 0x22, CHR 0x22],
          style_end = Some [CHR 0x22, CHR 0x22, CHR 0x22], style_line = None\<rparr>),
      (''java'', blockStyle), (''javascript'', blockStyle), (''cpp'', blockStyle),
      (''c'', blockStyle), (''csharp'', blockStyle), (''go'', blockStyle),
      (''ruby'',
         \<lparr>style_start = Some ''=begin'', style_end = Some ''=end'', style_line = Some '' ''\<rparr>),
      (''rust'', blockStyle), (''php'', blockStyle), (''typescript'', blockStyle),
      (''sql'', \<lparr>style_start = Some ''-- '', style_end = Some '''', style_line = None\<rparr>),
      (''bash'', \<lparr>style_start = Some ''# '', style_end = Some '''', style_line = None\<rparr>)]"

definition styleOf :: "string \<Rightarrow> commentStyle" where
  \<comment> \<open>\<^verbatim>\<open>commentStyles[language] || { start: '# ', end: '' }\<close>; an inherited member is
      truthy and has none of the three properties.\<close>
  "styleOf lang =
     (case map_of commentStyles lang of
        Some st \<Rightarrow> st
      | None \<Rightarrow>
          if lang \<in> set objectPrototypeKeys
          then \<lparr>style_start = None, style_end = None, style_line = None\<rparr>
          else \<lparr>style_start = Some ''# '', style_end = Some '''', style_line = None\<rparr>)"

definition truthyOpt :: "string option \<Rightarrow> bool" where
  \<comment> \<open>truthiness of a value that is a string or \<^verbatim>\<open>undefined\<close>\<close>
  "truthyOpt v = (case v of None \<Rightarrow> False | Some s \<Rightarrow> s \<noteq> [])"

record metadata =
  meta_problemTitle :: string
  meta_language :: string
  meta_timestamp :: string
  meta_url :: string

definition joinLines :: "string list \<Rightarrow> string" where
  \<comment> \<open>\<^verbatim>\<open>lines.join('\n')\<close>\<close>
  "joinLines ls = (case ls of [] \<Rightarrow> [] | l # r \<Rightarrow> foldl (\<lambda>acc x. acc @ [CHR 0x0A] @ x) l r)"

definition formatFileContent :: "string \<Rightarrow> metadata \<Rightarrow> string" where
  "formatFileContent code m =
     (let style = styleOf (meta_language m);
          nl = [CHR 0x0A];
          start = toStringOpt (style_start style);
          header =
            (if truthyOpt (style_line style)
             then
               (let line = toStringOpt (style_line style)
                in start @ nl @ line @ ''Problem: '' @ meta_problemTitle m @ nl
                   @ line @ ''Language: '' @ meta_language m @ nl
                   @ line @ ''Submitted: '' @ meta_timestamp m @ nl
                   @ line @ ''HackerRank URL: '' @ meta_url m @ nl
                   @ line @ ''Auto-synced by HackPush'' @ nl
                   @ toStringOpt (style_end style) @ nl @ nl)
             else if meta_language m = ''python3''
                     \<and> style_start style = Some [CHR 0x22, CHR 0x22, CHR 0x22]
             then
               [CHR 0x22, CHR 0x22, CHR 0x22] @ nl
               @ ''Problem: '' @ meta_problemTitle m @ nl
               @ ''Language: '' @ meta_language m @ nl
               @ ''Submitted: '' @ meta_timestamp m @ nl
               @ ''HackerRank URL: '' @ meta_url m @ nl
               @ ''Auto-synced by HackPush'' @ nl
               @ [CHR 0x22, CHR 0x22, CHR 0x22] @ nl @ nl
             else
               (let lines =
                      [start @ ''Problem: '' @ meta_problemTitle m,
                       start @ ''Language: '' @ meta_language m,
                       start @ ''Submitted: '' @ meta_timestamp m,
                       start @ ''HackerRank URL: '' @ meta_url m,
                       start @ ''Auto-synced by HackPush''
                         @ (if truthyOpt (style_end style)
                            then '' '' @ toStringOpt (style_end style) else [])]
                in joinLines lines @ nl @ nl))
      in header @ code)"

section \<open>Base64 of the UTF-8 encoding\<close>

definition utf8 :: "string \<Rightarrow> nat list" where
  \<comment> \<open>\<^verbatim>\<open>unescape(encodeURIComponent(s))\<close>: the UTF-8 bytes of code units below U+0100\<close>
  "utf8 s =
     concat (map (\<lambda>c. let n = (of_char c :: nat)
                       in if n < 128 then [n] else [192 + n div 64, 128 + n mod 64]) s)"

definition base64Alphabet :: string where
  "base64Alphabet = ''ABCDEFGHIJKLMNOPQRSTUVWXYZabcdefghijklmnopqrstuvwxyz0123456789+/''"

definition base64Char :: "nat \<Rightarrow> char" where
  "base64Char i = base64Alphabet ! (i mod 64)"

fun btoa :: "nat list \<Rightarrow> string" where
  "btoa (a # b # c # r) =
     [base64Char (a div 4), base64Char ((a mod 4) * 16 + b div 16),
      base64Char ((b mod 16) * 4 + c div 64), base64Char (c mod 64)] @ btoa r"
| "btoa [a, b] =
     [base64Char (a div 4), base64Char ((a mod 4) * 16 + b div 16),
      base64Char ((b mod 16) * 4), CHR ''='']"
| "btoa [a] = [base64Char (a div 4), base64Char ((a mod 4) * 16), CHR ''='', CHR ''='']"
| "btoa [] = []"

definition encodeContent :: "string \<Rightarrow> string" where
  \<comment> \<open>\<^verbatim>\<open>btoa(unescape(encodeURIComponent(content)))\<close>\<close>
  "encodeContent content = btoa (utf8 content)"

section \<open>The remote API as seen through fetch\<close>

text \<open>
  The body of a PUT to the contents endpoint; \<open>body_sha\<close> is present only when the
  program has set it.
\<close>

record putBody =
  body_message :: string
  body_content :: string
  body_branch :: string
  body_sha :: "string option"

text \<open>
  The three requests the synchronisation path issues, each with the token of its
  Authorization header: \<^verbatim>\<open>GET /user\<close>, \<^verbatim>\<open>GET /repos/{owner}/{repo}/contents/{path}?ref={branch}\<close>
  and \<^verbatim>\<open>PUT /repos/{owner}/{repo}/contents/{path}\<close>.
\<close>

datatype request =
    GetUser string
  | GetContents string string string string string
  | PutContents string string string string putBody

text \<open>
  What the program reads of a response: the status, \<^verbatim>\<open>data.sha\<close>, and
  \<^verbatim>\<open>data.content.html_url\<close> (the outer \<open>None\<close>: the body has no \<^verbatim>\<open>content\<close> member).
\<close>

record response =
  status :: nat
  data_sha :: "string option"
  data_content :: "string option option"

definition ok :: "response \<Rightarrow> bool" where
  \<comment> \<open>\<^verbatim>\<open>response.ok\<close>\<close>
  "ok r = (200 \<le> status r \<and> status r \<le> 299)"

text \<open>
  The remote is a parameter: a function from a request and the remote's state to the
  response (\<open>None\<close> when the fetch is rejected, as on a network failure) and the new
  state. The world of a run is the remote's state and the list of requests issued so far.
\<close>

type_synonym 'r fetcher = "request \<Rightarrow> 'r \<Rightarrow> response option \<times> 'r"

type_synonym 'r world = "'r \<times> request list"

definition doFetch :: "'r fetcher \<Rightarrow> request \<Rightarrow> 'r world \<Rightarrow> response option \<times> 'r world" where
  "doFetch fetch req w =
     (case w of (r, log) \<Rightarrow>
        (case fetch req r of (resp, r') \<Rightarrow> (resp, (r', log @ [req]))))"

fun isWrite :: "request \<Rightarrow> bool" where
  "isWrite (PutContents token owner repo path body) = True"
| "isWrite req = False"

section \<open>GitHubAPI (github-api.js)\<close>

definition validateToken :: "'r fetcher \<Rightarrow> string \<Rightarrow> 'r world \<Rightarrow> bool \<times> 'r world" where
  "validateToken fetch token w =
     (case doFetch fetch (GetUser token) w of
        (None, w') \<Rightarrow> (False, w')
      | (Some resp, w') \<Rightarrow> (ok resp, w'))"

definition getFileSha ::
  "'r fetcher \<Rightarrow> string \<Rightarrow> string \<Rightarrow> string \<Rightarrow> string \<Rightarrow> string \<Rightarrow> 'r world
     \<Rightarrow> (error + string option) \<times> 'r world" where
  "getFileSha fetch token owner repo path branch w =
     (case doFetch fetch (GetContents token owner repo path branch) w of
        (None, w') \<Rightarrow> (Inl NetworkError, w')
      | (Some resp, w') \<Rightarrow>
          if ok resp then (Inr (data_sha resp), w')
          else if status resp = 404 then (Inr None, w')
          else (Inl (ApiError (status resp)), w'))"

record pushResult =
  html_url :: "string option"

definition createOrUpdateFile ::
  "'r fetcher \<Rightarrow> string \<Rightarrow> string \<Rightarrow> string \<Rightarrow> string \<Rightarrow> string \<Rightarrow> string \<Rightarrow> string
     \<Rightarrow> 'r world \<Rightarrow> (error + pushResult) \<times> 'r world" where
  "createOrUpdateFile fetch token owner repo path content message branch w =
     (let encodedContent = encodeContent content
      in case getFileSha fetch token owner repo path branch w of
           (Inl e, w1) \<Rightarrow> (Inl e, w1)
         | (Inr sha, w1) \<Rightarrow>
             (let body =
                    \<lparr>body_message = message, body_content = encodedContent,
                     body_branch = branch,
                     body_sha = (if truthyOpt sha then sha else None)\<rparr>
              in case doFetch fetch (PutContents token owner repo path body) w1 of
                   (None, w2) \<Rightarrow> (Inl NetworkError, w2)
                 | (Some resp, w2) \<Rightarrow>
                     if \<not> ok resp then (Inl (ApiError (status resp)), w2)
                     else (case data_content resp of
                             None \<Rightarrow> (Inl TypeError, w2)
                           | Some url \<Rightarrow> (Inr \<lparr>html_url = url\<rparr>, w2))))"

section \<open>StorageManager (storage.js)\<close>

record historyRecord =
  problemSlug :: string
  problemTitle :: string
  language :: string
  category :: string
  timestamp :: string
  githubUrl :: "string option"
  filePath :: string

text \<open>
  The keys of \<^verbatim>\<open>chrome.storage.local\<close> that the program uses; \<open>None\<close> is a key that was
  never set.
\<close>

record storage =
  github_token :: "string option"
  github_repo :: "string option"
  branch :: "string option"
  file_structure :: "string option"
  submissions :: "historyRecord list option"

definition withinWindow :: "(string \<Rightarrow> int option) \<Rightarrow> string \<Rightarrow> string \<Rightarrow> bool" where
  \<comment> \<open>\<^verbatim>\<open>Math.abs(new Date(a) - new Date(b)) < 60000\<close>. The parameter is the time value,
      in milliseconds, that \<^verbatim>\<open>Date\<close> gives a string; \<open>None\<close> is an invalid date, whose
      arithmetic is NaN and compares false.\<close>
  "withinWindow dateValue a b =
     (case (dateValue a, dateValue b) of
        (Some x, Some y) \<Rightarrow> \<bar>x - y\<bar> < 60000
      | _ \<Rightarrow> False)"

definition getSubmissions :: "storage \<Rightarrow> historyRecord list" where
  "getSubmissions st = (case submissions st of None \<Rightarrow> [] | Some subs \<Rightarrow> subs)"

definition addSubmissionRecord ::
  "(string \<Rightarrow> int option) \<Rightarrow> historyRecord \<Rightarrow> storage \<Rightarrow> storage" where
  "addSubmissionRecord dateValue record st =
     (let subs = (case submissions st of None \<Rightarrow> [] | Some l \<Rightarrow> l);
          exists =
            list_ex (\<lambda>sub. problemSlug sub = problemSlug record
                          \<and> language sub = language record
                          \<and> withinWindow dateValue (timestamp sub) (timestamp record)) subs
      in if \<not> exists then st\<lparr>submissions := Some (subs @ [record])\<rparr> else st)"

section \<open>The service worker's handlePushToGitHub\<close>

text \<open>The \<^verbatim>\<open>data\<close> of a \<^verbatim>\<open>pushToGitHub\<close> message, as the content script builds it.\<close>

record submission =
  sub_code :: string
  sub_language :: string
  sub_problemTitle :: string
  sub_problemSlug :: string
  sub_category :: string
  sub_timestamp :: string
  sub_url :: string

fun splitOn :: "char \<Rightarrow> string \<Rightarrow> string list" where
  \<comment> \<open>\<^verbatim>\<open>s.split(c)\<close>\<close>
  "splitOn sep [] = [[]]"
| "splitOn sep (c # cs) =
     (if c = sep then [] # splitOn sep cs
      else (case splitOn sep cs of [] \<Rightarrow> [[c]] | p # ps \<Rightarrow> (c # p) # ps))"

definition targetPath :: "string \<Rightarrow> submission \<Rightarrow> error + string" where
  \<comment> \<open>The path of a submission: the extension, the file name and the call of
      \<open>generateFilePath\<close> in \<^verbatim>\<open>handlePushToGitHub\<close>.\<close>
  "targetPath fileStructure data =
     (let extension = jsToString (getFileExtension (sub_language data));
          fname = sub_problemSlug data @ ''.'' @ extension
      in generateFilePath fileStructure
           \<lparr>pathData.category = Some (sub_category data),
            filename = Some fname,
            slug = Some (sub_problemSlug data),
            pathData.language = Some (sub_language data)\<rparr>)"

definition handlePushToGitHub ::
  "'r fetcher \<Rightarrow> (string \<Rightarrow> int option) \<Rightarrow> submission \<Rightarrow> storage \<Rightarrow> 'r world
     \<Rightarrow> (error + pushResult) \<times> storage \<times> 'r world" where
  "handlePushToGitHub fetch dateValue data st w =
     (if \<not> truthyOpt (github_token st) \<or> \<not> truthyOpt (github_repo st)
      then (Inl ConfigMissing, st, w)
      else
        let token = toStringOpt (github_token st);
            repoName = toStringOpt (github_repo st)
        in case validateToken fetch token w of
             (isValid, w1) \<Rightarrow>
               if \<not> isValid then (Inl CredentialInvalid, st, w1)
               else
                 (case splitOn CHR ''/'' repoName of
                    owner # repo # rest \<Rightarrow>
                      if owner = [] \<or> repo = [] then (Inl InvalidRepoFormat, st, w1)
                      else
                        (let fileStructure =
                               (if truthyOpt (file_structure st)
                                then toStringOpt (file_structure st)
                                else ''hackerrank/{category}/{filename}'')
                         in case targetPath fileStructure data of
                              Inl e \<Rightarrow> (Inl e, st, w1)
                            | Inr path \<Rightarrow>
                                (let formattedCode =
                                       formatFileContent (sub_code data)
                                         \<lparr>meta_problemTitle = sub_problemTitle data,
                                          meta_language = sub_language data,
                                          meta_timestamp = sub_timestamp data,
                                          meta_url = sub_url data\<rparr>;
                                     commitMessage =
                                       ''Add solution for '' @ sub_problemTitle data
                                       @ '' ('' @ sub_language data @ '')'';
                                     br = (if truthyOpt (branch st)
                                           then toStringOpt (branch st) else ''main'')
                                 in case createOrUpdateFile fetch token owner repo path
                                           formattedCode commitMessage br w1 of
                                      (Inl e, w2) \<Rightarrow> (Inl e, st, w2)
                                    | (Inr result, w2) \<Rightarrow>
                                        (Inr result,
                                         addSubmissionRecord dateValue
                                           \<lparr>problemSlug = sub_problemSlug data,
                                            problemTitle = sub_problemTitle data,
                                            language = sub_language data,
                                            category = sub_category data,
                                            timestamp = sub_timestamp data,
                                            githubUrl = html_url result,
                                            filePath = path\<rparr> st,
                                         w2)))
                  | _ \<Rightarrow> (Inl InvalidRepoFormat, st, w1)))"

section \<open>A revision-checking remote store\<close>

text \<open>
  Modelled from the spec: the remote store (the GitHub service, which is no part of the
  repository). It accepts a set of credentials and keeps, for each
  \<open>(owner, repo, path, branch)\<close>, a revision and the stored content. A read answers 200
  with the revision, or 404 when the path does not exist; a write succeeds only when the
  revision it supplies is the current one (none for a path that does not exist) and is
  answered 409 otherwise; a request with a credential the store does not accept is
  answered 401. The revision of new content is given by \<open>revOf\<close>.
\<close>

type_synonym fileKey = "string \<times> string \<times> string \<times> string"

record casStore =
  credentials :: "string list"
  files :: "(fileKey \<times> (string \<times> string)) list"

definition plainResponse :: "nat \<Rightarrow> response" where
  "plainResponse n = \<lparr>status = n, data_sha = None, data_content = None\<rparr>"

definition blobUrl :: "fileKey \<Rightarrow> string" where
  "blobUrl k =
     (case k of (owner, repo, path, br) \<Rightarrow>
        ''https://github.com/'' @ owner @ ''/'' @ repo @ ''/blob/'' @ br @ ''/'' @ path)"

fun casFetch :: "(string \<Rightarrow> string) \<Rightarrow> request \<Rightarrow> casStore \<Rightarrow> response option \<times> casStore" where
  "casFetch revOf (GetUser token) s =
     (Some (plainResponse (if token \<in> set (credentials s) then 200 else 401)), s)"
| "casFetch revOf (GetContents token owner repo path br) s =
     (if token \<notin> set (credentials s) then (Some (plainResponse 401), s)
      else (case map_of (files s) (owner, repo, path, br) of
              None \<Rightarrow> (Some (plainResponse 404), s)
            | Some (cur, content) \<Rightarrow>
                (Some \<lparr>status = 200, data_sha = Some cur, data_content = None\<rparr>, s)))"
| "casFetch revOf (PutContents token owner repo path body) s =
     (if token \<notin> set (credentials s) then (Some (plainResponse 401), s)
      else
        let k = (owner, repo, path, body_branch body);
            current = map_option fst (map_of (files s) k)
        in if body_sha body = current
           then (Some \<lparr>status = (if current = None then 201 else 200),
                       data_sha = None, data_content = Some (Some (blobUrl k))\<rparr>,
                 s\<lparr>files := (k, (revOf (body_content body), body_content body))
                               # filter (\<lambda>e. fst e \<noteq> k) (files s)\<rparr>)
           else (Some (plainResponse 409), s))"

section \<open>Sample values\<close>

definition isoDates :: "string \<Rightarrow> int option" where
  \<comment> \<open>the time values of four ISO timestamps, in milliseconds since the epoch\<close>
  "isoDates =
     map_of [(''2024-01-01T00:00:00.000Z'', 1704067200000),
             (''2024-01-01T00:00:59.999Z'', 1704067259999),
             (''2024-01-01T00:01:00.000Z'', 1704067260000),
             (''2024-01-01T00:01:01.000Z'', 1704067261000)]"

definition recordAt :: "string \<Rightarrow> historyRecord" where
  "recordAt ts =
     \<lparr>problemSlug = ''simple-array-sum'', problemTitle = ''Simple Array Sum'',
      language = ''python3'', category = ''algorithms'', timestamp = ts,
      githubUrl = Some ''https://github.com/me/solutions/blob/main/a'', filePath = ''a''\<rparr>"

definition emptyStorage :: storage where
  "emptyStorage =
     \<lparr>github_token = None, github_repo = None, branch = None, file_structure = None,
      submissions = None\<rparr>"

section \<open>Sample remote\<close>

definition sampleStore :: casStore where
  "sampleStore =
     \<lparr>credentials = [''ghp_good''],
      files = [((''me'', ''solutions'', ''hackerrank/algorithms/two-sum-py'', ''main''),
                (''abc123'', ''b2xk''))]\<rparr>"

definition sampleConfig :: storage where
  "sampleConfig =
     \<lparr>github_token = Some ''ghp_bad'', github_repo = Some ''me/solutions'', branch = None,
      file_structure = None, submissions = None\<rparr>"

definition sampleSubmission :: submission where
  "sampleSubmission =
     \<lparr>sub_code = ''print(1)'', sub_language = ''python3'', sub_problemTitle = ''Two Sum'',
      sub_problemSlug = ''two-sum'', sub_category = ''algorithms'',
      sub_timestamp = ''2024-01-01T00:00:00.000Z'',
      sub_url = ''https://www.hackerrank.com/challenges/two-sum/problem''\<rparr>"




section \<open>Facts about the string methods\<close>

lemma of_char_lowerChar_upper:
  "isUpper c \<Longrightarrow> (of_char (lowerChar c) :: nat) = of_char c + 32"
  by (auto simp: lowerChar_def isUpper_def Let_def)

lemma lowerChar_not_upper: "\<not> isUpper (lowerChar c)"
proof (cases "isUpper c")
  case True
  then have "(of_char (lowerChar c) :: nat) = of_char c + 32"
    by (rule of_char_lowerChar_upper)
  with True show ?thesis
    by (auto simp: isUpper_def Let_def)
next
  case False
  then show ?thesis by (simp add: lowerChar_def)
qed

lemma lowerChar_idem: "lowerChar (lowerChar c) = lowerChar c"
  using lowerChar_not_upper [of c] by (simp add: lowerChar_def [of "lowerChar c"])

lemma toLowerCase_idem: "toLowerCase (toLowerCase s) = toLowerCase s"
  by (simp add: toLowerCase_def lowerChar_idem)

lemma toLowerCase_append: "toLowerCase (xs @ ys) = toLowerCase xs @ toLowerCase ys"
  by (simp add: toLowerCase_def)

lemma length_toLowerCase: "length (toLowerCase s) = length s"
  by (simp add: toLowerCase_def)

lemma startsWith_toLowerCase:
  "startsWith s p \<Longrightarrow> startsWith (toLowerCase s) (toLowerCase p)"
  unfolding startsWith_def toLowerCase_def
  by (metis length_map take_map)

lemma str_includes_toLowerCase:
  "str_includes s p \<Longrightarrow> str_includes (toLowerCase s) (toLowerCase p)"
proof (induction s)
  case Nil
  then show ?case by (simp add: toLowerCase_def)
next
  case (Cons c cs)
  from Cons.prems have "startsWith (c # cs) p \<or> str_includes cs p" by simp
  then show ?case
  proof
    assume "startsWith (c # cs) p"
    then have "startsWith (toLowerCase (c # cs)) (toLowerCase p)"
      by (rule startsWith_toLowerCase)
    then show ?thesis by (simp add: toLowerCase_def)
  next
    assume "str_includes cs p"
    then have "str_includes (toLowerCase cs) (toLowerCase p)" by (rule Cons.IH)
    then show ?thesis by (simp add: toLowerCase_def)
  qed
qed

lemma isWhiteSpace_lowerChar: "isWhiteSpace (lowerChar c) = isWhiteSpace c"
proof (cases "isUpper c")
  case False then show ?thesis by (simp add: lowerChar_def)
next
  case True
  then have e: "(of_char (lowerChar c) :: nat) = of_char c + 32"
    by (rule of_char_lowerChar_upper)
  from True have "\<not> isWhiteSpace c"
    by (auto simp: isUpper_def isWhiteSpace_def Let_def)
  moreover have "\<not> isWhiteSpace (lowerChar c)"
  proof
    assume "isWhiteSpace (lowerChar c)"
    then have "(of_char (lowerChar c) :: nat) \<in> {9, 10, 11, 12, 13, 32, 160}"
      by (auto simp: isWhiteSpace_def)
    with e True show False by (auto simp: isUpper_def Let_def)
  qed
  ultimately show ?thesis by simp
qed

lemma toLowerCase_trim: "toLowerCase (trim s) = trim (toLowerCase s)"
proof -
  have c: "isWhiteSpace \<circ> lowerChar = isWhiteSpace"
    by (rule ext) (simp add: isWhiteSpace_lowerChar)
  show ?thesis
    by (simp add: toLowerCase_def trim_def rev_map dropWhile_map c)
qed

lemma dropWhile_trim: "dropWhile isWhiteSpace (trim s) = trim s"
proof -
  define u where "u = dropWhile isWhiteSpace s"
  define w where "w = dropWhile isWhiteSpace (rev u)"
  have t: "trim s = rev w" by (simp add: trim_def u_def w_def)
  have "rev u = takeWhile isWhiteSpace (rev u) @ w"
    by (simp add: w_def)
  then have "u = rev w @ rev (takeWhile isWhiteSpace (rev u))"
    by (metis rev_append rev_rev_ident)
  then have hd: "rev w \<noteq> [] \<Longrightarrow> hd (rev w) = hd u"
    by (metis hd_append2)
  have "u = [] \<or> \<not> isWhiteSpace (hd u)"
    unfolding u_def by (metis hd_dropWhile)
  then have "rev w = [] \<or> \<not> isWhiteSpace (hd (rev w))"
    using hd w_def by fastforce
  then show ?thesis
    unfolding t by (simp add: dropWhile_eq_self_iff)
qed

lemma dropWhile_rev_trim: "dropWhile isWhiteSpace (rev (trim s)) = rev (trim s)"
  by (simp add: trim_def dropWhile_idem)

lemma trim_idem: "trim (trim s) = trim s"
  by (simp add: trim_def [of "trim s"] dropWhile_trim dropWhile_rev_trim)

lemma normalized_idem:
  "trim (toLowerCase (trim (toLowerCase s))) = trim (toLowerCase s)"
  by (simp add: toLowerCase_trim [symmetric] toLowerCase_idem trim_idem)

lemma rejectedKeywords_lower:
  "kw \<in> set rejectedKeywords \<Longrightarrow> toLowerCase kw = kw"
  by (auto simp: rejectedKeywords_def toLowerCase_def lowerChar_def isUpper_def)

section \<open>Rejection precedence\<close>

text \<open>
  C4. Whenever the text of the result panel contains a rejection keyword (as it stands, or
  after lower-casing), \<open>isSubmissionAccepted\<close> answers false, whatever else the text
  contains; an acceptance keyword in the same text does not change the answer.
\<close>

theorem isSubmissionAccepted_rejection_precedence:
  assumes "kw \<in> set rejectedKeywords"
    and "str_includes t kw \<or> str_includes (toLowerCase t) kw"
  shows "isSubmissionAccepted (Some (Some t)) = False"
proof -
  have "str_includes (toLowerCase t) kw"
  proof (rule disjE [OF assms(2)])
    assume "str_includes t kw"
    then have "str_includes (toLowerCase t) (toLowerCase kw)"
      by (rule str_includes_toLowerCase)
    then show ?thesis using assms(1) by (simp add: rejectedKeywords_lower)
  qed
  with assms(1) have "list_ex (\<lambda>k. str_includes (toLowerCase t) k) rejectedKeywords"
    unfolding list_ex_iff by blast
  then show ?thesis by (simp add: isSubmissionAccepted_def)
qed

theorem isSubmissionAccepted_rejection_precedence_witness:
  "''failed'' \<in> set rejectedKeywords
   \<and> str_includes ''Congratulations! 3 passed, 1 FAILED'' ''passed''
   \<and> str_includes (toLowerCase ''Congratulations! 3 passed, 1 FAILED'') ''failed''
   \<and> isSubmissionAccepted (Some (Some ''Congratulations! 3 passed, 1 FAILED'')) = False"
proof -
  have k: "''failed'' \<in> set rejectedKeywords"
    by (simp add: rejectedKeywords_def)
  have a: "str_includes ''Congratulations! 3 passed, 1 FAILED'' ''passed''"
    by (simp add: startsWith_def)
  have r: "str_includes (toLowerCase ''Congratulations! 3 passed, 1 FAILED'') ''failed''"
    by code_simp
  from isSubmissionAccepted_rejection_precedence [OF k disjI2 [OF r]] k a r
  show ?thesis by simp
qed

lemma set_trim: "set (trim s) \<subseteq> set s"
proof
  fix c assume "c \<in> set (trim s)"
  then have "c \<in> set (dropWhile isWhiteSpace (rev (dropWhile isWhiteSpace s)))"
    by (simp add: trim_def)
  then have "c \<in> set (rev (dropWhile isWhiteSpace s))" by (rule set_dropWhileD)
  then have "c \<in> set (dropWhile isWhiteSpace s)" by simp
  then show "c \<in> set s" by (rule set_dropWhileD)
qed

lemma normalized_no_upper: "c \<in> set (trim (toLowerCase s)) \<Longrightarrow> \<not> isUpper c"
proof -
  assume "c \<in> set (trim (toLowerCase s))"
  then have "c \<in> set (toLowerCase s)" using set_trim by blast
  then obtain d where "c = lowerChar d" by (auto simp: toLowerCase_def)
  then show ?thesis by (simp add: lowerChar_not_upper)
qed

lemma values_fixed: "list_all (\<lambda>(k, v). normalizeLanguage (Str v) = Inr (Str v)) languageMap"
  by code_simp

lemma prototypeKeys_case:
  "list_all (\<lambda>k. k = ''constructor'' \<or> k = ''__proto__'' \<or> list_ex isUpper k) objectPrototypeKeys"
  by code_simp

lemma inherited_normalized:
  assumes "n = trim (toLowerCase s)" and "n \<in> set objectPrototypeKeys"
  shows "n = ''constructor'' \<or> n = ''__proto__''"
proof -
  have "\<not> list_ex isUpper n"
    using assms(1) normalized_no_upper unfolding list_ex_iff by blast
  moreover have "n = ''constructor'' \<or> n = ''__proto__'' \<or> list_ex isUpper n"
    using prototypeKeys_case assms(2) unfolding list_all_iff by blast
  ultimately show ?thesis by blast
qed

lemma values_fixed_api: "list_all (\<lambda>(k, v). v = ''python'' \<or> normalizeLanguage_api (Str v) = Inr (Str v)) languageMap_api"
  by code_simp

lemma normalizeWith_Str:
  "normalizeWith table (Str s) =
     Inr (getOr table (trim (toLowerCase s)) (Str (trim (toLowerCase s))))"
  by (simp add: normalizeWith_def Let_def)

lemma getOr_miss:
  "map_of table k = None \<Longrightarrow> k \<notin> set objectPrototypeKeys \<Longrightarrow> getOr table k d = d"
  by (simp add: getOr_def literalGet_def)

lemma getOr_hit:
  "map_of table k = Some v \<Longrightarrow> v \<noteq> [] \<Longrightarrow> getOr table k d = Str v"
  by (simp add: getOr_def literalGet_def)

lemma normalizeWith_idem:
  assumes n: "n = trim (toLowerCase s)"
    and inh: "n \<notin> set objectPrototypeKeys"
    and fp: "\<And>v. map_of table n = Some v \<Longrightarrow> v \<noteq> [] \<and> normalizeWith table (Str v) = Inr (Str v)"
  shows "\<exists>v. normalizeWith table (Str s) = Inr v \<and> normalizeWith table v = Inr v"
proof (cases "map_of table n")
  case None
  have nn: "trim (toLowerCase n) = n"
    unfolding n by (rule normalized_idem)
  have "normalizeWith table (Str s) = Inr (Str n)"
    using None inh by (simp add: normalizeWith_Str n [symmetric] getOr_miss)
  moreover have "normalizeWith table (Str n) = Inr (Str n)"
    using None inh by (simp add: normalizeWith_Str nn getOr_miss)
  ultimately show ?thesis by blast
next
  case (Some v)
  with fp have v: "v \<noteq> []" and f: "normalizeWith table (Str v) = Inr (Str v)"
    by blast+
  have "normalizeWith table (Str s) = Inr (Str v)"
    using Some v by (simp add: normalizeWith_Str n [symmetric] getOr_hit)
  with f show ?thesis by blast
qed

lemma values_nonempty: "list_all (\<lambda>(k, v). v \<noteq> []) languageMap"
  by code_simp

lemma values_nonempty_api: "list_all (\<lambda>(k, v). v \<noteq> []) languageMap_api"
  by code_simp

lemma python_only_from_python2:
  "list_all (\<lambda>(k, v). v \<noteq> ''python'' \<or> k = ''python2'') languageMap_api"
  by code_simp

lemma not_inherited:
  assumes "n = trim (toLowerCase s)" "n \<noteq> ''constructor''" "n \<noteq> ''__proto__''"
  shows "n \<notin> set objectPrototypeKeys"
  using inherited_normalized [OF assms(1)] assms(2,3) by blast

section \<open>Idempotence of language normalisation\<close>

text \<open>
  C10 (as amended). For every string whose lower-cased, trimmed form is not a property name
  inherited from \<^verbatim>\<open>Object.prototype\<close> (\<^verbatim>\<open>constructor\<close>, \<^verbatim>\<open>__proto__\<close>), normalising
  twice gives the same as normalising once with the table of content.js; with the table of
  the API-based script the same holds for every such string other than those that
  normalise to \<^verbatim>\<open>python2\<close>. Every value of the content.js table is a fixed point, and
  so is every value of the API-based table except \<^verbatim>\<open>python\<close>.
\<close>

theorem normalizeLanguage_idempotent:
  assumes n: "n = trim (toLowerCase s)"
    and c: "n \<noteq> ''constructor''" and p: "n \<noteq> ''__proto__''"
  shows "(\<exists>v. normalizeLanguage (Str s) = Inr v \<and> normalizeLanguage v = Inr v)
       \<and> (n \<noteq> ''python2'' \<longrightarrow>
            (\<exists>v. normalizeLanguage_api (Str s) = Inr v \<and> normalizeLanguage_api v = Inr v))
       \<and> (\<forall>k v. (k, v) \<in> set languageMap \<longrightarrow> normalizeLanguage (Str v) = Inr (Str v))
       \<and> (\<forall>k v. (k, v) \<in> set languageMap_api \<longrightarrow> v \<noteq> ''python'' \<longrightarrow>
            normalizeLanguage_api (Str v) = Inr (Str v))"
proof -
  have inh: "n \<notin> set objectPrototypeKeys"
    using n c p by (rule not_inherited)
  have fx: "\<And>k v. (k, v) \<in> set languageMap \<Longrightarrow> normalizeLanguage (Str v) = Inr (Str v)"
    using values_fixed unfolding list_all_iff by blast
  have ne: "\<And>k v. (k, v) \<in> set languageMap \<Longrightarrow> v \<noteq> []"
    using values_nonempty unfolding list_all_iff by blast
  have fxa: "\<And>k v. (k, v) \<in> set languageMap_api \<Longrightarrow> v \<noteq> ''python'' \<Longrightarrow>
      normalizeLanguage_api (Str v) = Inr (Str v)"
    using values_fixed_api unfolding list_all_iff by blast
  have nea: "\<And>k v. (k, v) \<in> set languageMap_api \<Longrightarrow> v \<noteq> []"
    using values_nonempty_api unfolding list_all_iff by blast
  have py: "\<And>k v. (k, v) \<in> set languageMap_api \<Longrightarrow> k \<noteq> ''python2'' \<Longrightarrow> v \<noteq> ''python''"
    using python_only_from_python2 unfolding list_all_iff by blast
  have one: "\<exists>v. normalizeLanguage (Str s) = Inr v \<and> normalizeLanguage v = Inr v"
    unfolding normalizeLanguage_def
  proof (rule normalizeWith_idem [OF n inh])
    fix v assume "map_of languageMap n = Some v"
    then have "(n, v) \<in> set languageMap" by (rule map_of_SomeD)
    then show "v \<noteq> [] \<and> normalizeWith languageMap (Str v) = Inr (Str v)"
      using fx ne by (simp add: normalizeLanguage_def)
  qed
  have two: "\<exists>v. normalizeLanguage_api (Str s) = Inr v \<and> normalizeLanguage_api v = Inr v"
    if "n \<noteq> ''python2''"
    unfolding normalizeLanguage_api_def
  proof (rule normalizeWith_idem [OF n inh])
    fix v assume "map_of languageMap_api n = Some v"
    then have m: "(n, v) \<in> set languageMap_api" by (rule map_of_SomeD)
    from m that have "v \<noteq> ''python''" by (rule py)
    with m show "v \<noteq> [] \<and> normalizeWith languageMap_api (Str v) = Inr (Str v)"
      using fxa nea by (simp add: normalizeLanguage_api_def)
  qed
  from one two fx fxa show ?thesis by blast
qed

theorem normalizeLanguage_idempotent_witness:
  "'' Py '' \<noteq> ''constructor'' \<and> trim (toLowerCase '' Py '') = ''py''
   \<and> (\<exists>v. normalizeLanguage (Str '' Py '') = Inr v \<and> normalizeLanguage v = Inr v)
   \<and> (\<exists>v. normalizeLanguage_api (Str '' Py '') = Inr v \<and> normalizeLanguage_api v = Inr v)
   \<and> (''py'', ''python3'') \<in> set languageMap
   \<and> normalizeLanguage (Str ''python3'') = Inr (Str ''python3'')
   \<and> (''py'', ''python3'') \<in> set languageMap_api
   \<and> normalizeLanguage_api (Str ''python3'') = Inr (Str ''python3'')"
proof -
  have n: "''py'' = trim (toLowerCase '' Py '')" by code_simp
  have c: "''py'' \<noteq> ''constructor''" and p: "''py'' \<noteq> ''__proto__''"
    and q: "''py'' \<noteq> ''python2''" by simp_all
  have m: "(''py'', ''python3'') \<in> set languageMap" by (simp add: languageMap_def)
  have ma: "(''py'', ''python3'') \<in> set languageMap_api" by (simp add: languageMap_api_def)
  have v: "''python3'' \<noteq> ''python''" by simp
  from normalizeLanguage_idempotent [OF n c p] q m ma v n
  show ?thesis by (simp del: list.set)
qed

text \<open>
  The claim as stated fails: the API-based script sends \<^verbatim>\<open>python2\<close> to \<^verbatim>\<open>python\<close> and
  \<^verbatim>\<open>python\<close> on to \<^verbatim>\<open>python3\<close>; and for the input \<^verbatim>\<open>constructor\<close> the table read
  yields the inherited function, on which a second call raises.
\<close>

theorem normalizeLanguage_idempotent_counterexample:
  "normalizeLanguage_api (Str ''python2'') = Inr (Str ''python'')
   \<and> normalizeLanguage_api (Str ''python'') = Inr (Str ''python3'')
   \<and> normalizeLanguage (Str ''constructor'') = Inr (Inherited ''constructor'')
   \<and> normalizeLanguage (Inherited ''constructor'') = Inl TypeError"
  by code_simp

lemma python_aliases:
  "map_of languageMap ''py'' = Some ''python3''"
  "map_of languageMap ''python'' = Some ''python3''"
  "map_of languageMap ''python3'' = Some ''python3''"
  "map_of languageMap ''python2'' = None"
  "map_of languageMap_api ''py'' = Some ''python3''"
  "map_of languageMap_api ''python'' = Some ''python3''"
  "map_of languageMap_api ''python3'' = Some ''python3''"
  "map_of languageMap_api ''python2'' = Some ''python''"
  by code_simp+

lemma python2_not_inherited: "''python2'' \<notin> set objectPrototypeKeys"
  by code_simp

section \<open>The Python aliases and unlisted inputs\<close>

text \<open>
  C8 (as amended). The result of \<open>normalizeLanguage\<close> depends only on the lower-cased,
  trimmed input. The aliases \<^verbatim>\<open>py\<close>, \<^verbatim>\<open>python\<close> and \<^verbatim>\<open>python3\<close> all give \<^verbatim>\<open>python3\<close>, in
  both scripts; \<^verbatim>\<open>python2\<close> is not one of them: content.js does not list it and returns it
  unchanged, and the API-based script maps it to \<^verbatim>\<open>python\<close>. An input that is not a key of
  the table and not a property name inherited from \<^verbatim>\<open>Object.prototype\<close> is returned
  lower-cased and trimmed.
\<close>

theorem normalizeLanguage_aliases:
  assumes n: "n = trim (toLowerCase s)"
  shows "normalizeLanguage (Str s) = normalizeLanguage (Str n)
       \<and> normalizeLanguage_api (Str s) = normalizeLanguage_api (Str n)
       \<and> (n = ''py'' \<or> n = ''python'' \<or> n = ''python3'' \<longrightarrow>
             normalizeLanguage (Str s) = Inr (Str ''python3'')
           \<and> normalizeLanguage_api (Str s) = Inr (Str ''python3''))
       \<and> (n = ''python2'' \<longrightarrow>
             normalizeLanguage (Str s) = Inr (Str ''python2'')
           \<and> normalizeLanguage_api (Str s) = Inr (Str ''python''))
       \<and> (n \<notin> fst ` set languageMap \<and> n \<noteq> ''constructor'' \<and> n \<noteq> ''__proto__'' \<longrightarrow>
             normalizeLanguage (Str s) = Inr (Str n))
       \<and> (n \<notin> fst ` set languageMap_api \<and> n \<noteq> ''constructor'' \<and> n \<noteq> ''__proto__'' \<longrightarrow>
             normalizeLanguage_api (Str s) = Inr (Str n))"
proof -
  have nn: "trim (toLowerCase n) = n"
    unfolding n by (rule normalized_idem)
  have e: "normalizeLanguage (Str s) = Inr (getOr languageMap n (Str n))"
    by (simp add: normalizeLanguage_def normalizeWith_Str n [symmetric])
  have ea: "normalizeLanguage_api (Str s) = Inr (getOr languageMap_api n (Str n))"
    by (simp add: normalizeLanguage_api_def normalizeWith_Str n [symmetric])
  have pure: "normalizeLanguage (Str s) = normalizeLanguage (Str n)"
    unfolding e by (simp add: normalizeLanguage_def normalizeWith_Str nn)
  have pure_api: "normalizeLanguage_api (Str s) = normalizeLanguage_api (Str n)"
    unfolding ea by (simp add: normalizeLanguage_api_def normalizeWith_Str nn)
  have fam: "n = ''py'' \<or> n = ''python'' \<or> n = ''python3'' \<longrightarrow>
        normalizeLanguage (Str s) = Inr (Str ''python3'')
      \<and> normalizeLanguage_api (Str s) = Inr (Str ''python3'')"
  proof
    assume "n = ''py'' \<or> n = ''python'' \<or> n = ''python3''"
    then have "map_of languageMap n = Some ''python3''
        \<and> map_of languageMap_api n = Some ''python3''"
      using python_aliases by blast
    then show "normalizeLanguage (Str s) = Inr (Str ''python3'')
        \<and> normalizeLanguage_api (Str s) = Inr (Str ''python3'')"
      unfolding e ea by (simp add: getOr_hit)
  qed
  have two: "n = ''python2'' \<longrightarrow>
        normalizeLanguage (Str s) = Inr (Str ''python2'')
      \<and> normalizeLanguage_api (Str s) = Inr (Str ''python'')"
  proof
    assume "n = ''python2''"
    then have "map_of languageMap n = None" "n \<notin> set objectPrototypeKeys"
        "map_of languageMap_api n = Some ''python''" "Str n = Str ''python2''"
      using python_aliases python2_not_inherited by simp_all
    then show "normalizeLanguage (Str s) = Inr (Str ''python2'')
        \<and> normalizeLanguage_api (Str s) = Inr (Str ''python'')"
      unfolding e ea by (simp add: getOr_hit getOr_miss)
  qed
  have miss: "n \<notin> fst ` set languageMap \<and> n \<noteq> ''constructor'' \<and> n \<noteq> ''__proto__'' \<longrightarrow>
        normalizeLanguage (Str s) = Inr (Str n)"
  proof
    assume h: "n \<notin> fst ` set languageMap \<and> n \<noteq> ''constructor'' \<and> n \<noteq> ''__proto__''"
    then have "map_of languageMap n = None" by (simp add: map_of_eq_None_iff)
    moreover have "n \<notin> set objectPrototypeKeys" using h not_inherited [OF n] by blast
    ultimately show "normalizeLanguage (Str s) = Inr (Str n)"
      unfolding e by (simp add: getOr_miss)
  qed
  have miss_api: "n \<notin> fst ` set languageMap_api \<and> n \<noteq> ''constructor'' \<and> n \<noteq> ''__proto__'' \<longrightarrow>
        normalizeLanguage_api (Str s) = Inr (Str n)"
  proof
    assume h: "n \<notin> fst ` set languageMap_api \<and> n \<noteq> ''constructor'' \<and> n \<noteq> ''__proto__''"
    then have "map_of languageMap_api n = None" by (simp add: map_of_eq_None_iff)
    moreover have "n \<notin> set objectPrototypeKeys" using h not_inherited [OF n] by blast
    ultimately show "normalizeLanguage_api (Str s) = Inr (Str n)"
      unfolding ea by (simp add: getOr_miss)
  qed
  show ?thesis
    by (rule conjI [OF pure conjI [OF pure_api conjI [OF fam conjI [OF two conjI [OF miss miss_api]]]]])
qed

lemma haskell_unlisted:
  "''haskell'' \<notin> fst ` set languageMap" "''haskell'' \<notin> fst ` set languageMap_api"
  by code_simp+

theorem normalizeLanguage_aliases_witness:
  "trim (toLowerCase '' Python '') = ''python''
   \<and> normalizeLanguage (Str '' Python '') = Inr (Str ''python3'')
   \<and> normalizeLanguage_api (Str '' Python '') = Inr (Str ''python3'')
   \<and> trim (toLowerCase ''PYTHON2'') = ''python2''
   \<and> normalizeLanguage (Str ''PYTHON2'') = Inr (Str ''python2'')
   \<and> normalizeLanguage_api (Str ''PYTHON2'') = Inr (Str ''python'')
   \<and> trim (toLowerCase ''Haskell  '') = ''haskell''
   \<and> ''haskell'' \<notin> fst ` set languageMap \<and> ''haskell'' \<notin> fst ` set languageMap_api
   \<and> normalizeLanguage (Str ''Haskell  '') = Inr (Str ''haskell'')
   \<and> normalizeLanguage_api (Str ''Haskell  '') = Inr (Str ''haskell'')"
proof -
  have a: "''python'' = trim (toLowerCase '' Python '')" by code_simp
  have b: "''python2'' = trim (toLowerCase ''PYTHON2'')" by code_simp
  have c: "''haskell'' = trim (toLowerCase ''Haskell  '')" by code_simp
  have d: "''haskell'' \<noteq> ''constructor''" "''haskell'' \<noteq> ''__proto__''" by simp_all
  have 1: "normalizeLanguage (Str '' Python '') = Inr (Str ''python3'')
      \<and> normalizeLanguage_api (Str '' Python '') = Inr (Str ''python3'')"
    using normalizeLanguage_aliases [OF a, THEN conjunct2, THEN conjunct2, THEN conjunct1]
    by simp
  have 2: "normalizeLanguage (Str ''PYTHON2'') = Inr (Str ''python2'')
      \<and> normalizeLanguage_api (Str ''PYTHON2'') = Inr (Str ''python'')"
    using normalizeLanguage_aliases
      [OF b, THEN conjunct2, THEN conjunct2, THEN conjunct2, THEN conjunct1]
    by simp
  have 3: "normalizeLanguage (Str ''Haskell  '') = Inr (Str ''haskell'')
      \<and> normalizeLanguage_api (Str ''Haskell  '') = Inr (Str ''haskell'')"
    using normalizeLanguage_aliases
      [OF c, THEN conjunct2, THEN conjunct2, THEN conjunct2, THEN conjunct2]
      haskell_unlisted
    by (simp del: list.set)
  from 1 2 3 haskell_unlisted a [symmetric] b [symmetric] c [symmetric]
  show ?thesis by (simp del: list.set)
qed

text \<open>
  The claim as stated fails: \<^verbatim>\<open>python2\<close> and \<^verbatim>\<open>python\<close> get different results in both
  scripts, and \<^verbatim>\<open>__proto__\<close>, which is not a key of the table, is not returned unchanged.
\<close>

theorem normalizeLanguage_aliases_counterexample:
  "normalizeLanguage (Str ''python'') = Inr (Str ''python3'')
   \<and> normalizeLanguage (Str ''python2'') = Inr (Str ''python2'')
   \<and> normalizeLanguage_api (Str ''python'') = Inr (Str ''python3'')
   \<and> normalizeLanguage_api (Str ''python2'') = Inr (Str ''python'')
   \<and> map_of languageMap ''__proto__'' = None
   \<and> normalizeLanguage (Str ''__proto__'') = Inr (Inherited ''__proto__'')"
  by code_simp

lemma filter_dropWhile:
  "(\<And>x. P x \<Longrightarrow> \<not> Q x) \<Longrightarrow> filter P (dropWhile Q xs) = filter P xs"
  by (induction xs) auto

lemma digit_not_space: "isDigit c \<Longrightarrow> \<not> isWhiteSpace c"
  by (auto simp: isDigit_def isWhiteSpace_def)

lemma filter_isDigit_trim: "filter isDigit (trim s) = filter isDigit s"
  by (simp add: trim_def rev_filter [symmetric] filter_dropWhile digit_not_space)

lemma trim_Nil: "trim [] = []"
  by (simp add: trim_def)

section \<open>Leading-digit clean-up\<close>

text \<open>
  C7. \<open>cleanCode\<close> strips the eleven leading digits of the example down to its shebang;
  and on every input that does not start with ten or more digits it only trims white
  space: the digits of the code are all kept, in their order.
\<close>

theorem cleanCode_leading_digits:
  "cleanCode ''12345678910#!/bin/python3\<newline>print(1)'' = ''#!/bin/python3\<newline>print(1)''
   \<and> (length (takeWhile isDigit code) < 10 \<longrightarrow>
         cleanCode code = trim code
       \<and> filter isDigit (cleanCode code) = filter isDigit code)"
proof -
  have ex: "cleanCode ''12345678910#!/bin/python3\<newline>print(1)'' = ''#!/bin/python3\<newline>print(1)''"
    by code_simp
  have mid: "length (takeWhile isDigit code) < 10 \<longrightarrow>
         cleanCode code = trim code
       \<and> filter isDigit (cleanCode code) = filter isDigit code"
  proof
    assume "length (takeWhile isDigit code) < 10"
    then have "cleanCode code = trim code"
      by (simp add: cleanCode_def trim_Nil)
    then show "cleanCode code = trim code
       \<and> filter isDigit (cleanCode code) = filter isDigit code"
      by (simp add: filter_isDigit_trim)
  qed
  from ex mid show ?thesis by (rule conjI)
qed

theorem cleanCode_leading_digits_witness:
  "length (takeWhile isDigit ''  x = 1234567890123 + 42  '') < 10
   \<and> cleanCode ''  x = 1234567890123 + 42  '' = ''x = 1234567890123 + 42''
   \<and> filter isDigit (cleanCode ''  x = 1234567890123 + 42  '') = ''123456789012342''"
proof -
  have h: "length (takeWhile isDigit ''  x = 1234567890123 + 42  '') < 10" by code_simp
  have t: "trim ''  x = 1234567890123 + 42  '' = ''x = 1234567890123 + 42''" by code_simp
  have f: "filter isDigit ''  x = 1234567890123 + 42  '' = ''123456789012342''" by code_simp
  have r: "cleanCode ''  x = 1234567890123 + 42  '' = trim ''  x = 1234567890123 + 42  ''
       \<and> filter isDigit (cleanCode ''  x = 1234567890123 + 42  '') =
           filter isDigit ''  x = 1234567890123 + 42  ''"
    by (rule mp [OF cleanCode_leading_digits [THEN conjunct2] h])
  show ?thesis
    by (rule conjI [OF h conjI [OF conjunct1 [OF r, unfolded t] conjunct2 [OF r, unfolded f]]])
qed

section \<open>The path of the end-to-end scenario\<close>

text \<open>
  C2. The code at the scenario's input: the extension of \<^verbatim>\<open>python3\<close> is \<^verbatim>\<open>py\<close> and the
  file name is built as \<^verbatim>\<open>simple-array-sum.py\<close>, but \<open>generateFilePath\<close> sanitises the
  file name, which turns the dot before the extension into a hyphen: the path is
  \<^verbatim>\<open>hackerrank/algorithms/simple-array-sum-py\<close>, not the path the claim names.
\<close>

theorem targetPath_simple_array_sum:
  "getFileExtension ''python3'' = Str ''py''
   \<and> sanitize ''simple-array-sum.py'' = ''simple-array-sum-py''
   \<and> targetPath ''hackerrank/{category}/{filename}''
         \<lparr>sub_code = code, sub_language = ''python3'', sub_problemTitle = title,
          sub_problemSlug = ''simple-array-sum'', sub_category = ''algorithms'',
          sub_timestamp = ts, sub_url = url\<rparr>
       = Inr ''hackerrank/algorithms/simple-array-sum-py''
   \<and> targetPath ''hackerrank/{category}/{filename}''
         \<lparr>sub_code = code, sub_language = ''python3'', sub_problemTitle = title,
          sub_problemSlug = ''simple-array-sum'', sub_category = ''algorithms'',
          sub_timestamp = ts, sub_url = url\<rparr>
       \<noteq> Inr ''hackerrank/algorithms/simple-array-sum.py''"
proof -
  have e: "getFileExtension ''python3'' = Str ''py''" by code_simp
  have s: "sanitize ''simple-array-sum.py'' = ''simple-array-sum-py''" by code_simp
  have g: "generateFilePath ''hackerrank/{category}/{filename}''
         \<lparr>pathData.category = Some ''algorithms'', filename = Some ''simple-array-sum.py'',
          slug = Some ''simple-array-sum'', pathData.language = Some ''python3''\<rparr>
       = Inr ''hackerrank/algorithms/simple-array-sum-py''"
    by code_simp
  have t: "targetPath ''hackerrank/{category}/{filename}''
         \<lparr>sub_code = code, sub_language = ''python3'', sub_problemTitle = title,
          sub_problemSlug = ''simple-array-sum'', sub_category = ''algorithms'',
          sub_timestamp = ts, sub_url = url\<rparr>
       = Inr ''hackerrank/algorithms/simple-array-sum-py''"
    by (simp add: targetPath_def e g)
  have d: "(Inr ''hackerrank/algorithms/simple-array-sum-py'' :: error + string)
       \<noteq> Inr ''hackerrank/algorithms/simple-array-sum.py''"
    by simp
  show ?thesis
    unfolding t using e s d by simp
qed

lemma template_no_category:
  "replaceAll ''{category}'' r ''solutions/{language}/{slug}'' = ''solutions/{language}/{slug}''"
  by (simp add: replaceAll_def startsWith_def)

lemma template_no_filename:
  "replaceAll ''{filename}'' r ''solutions/{language}/{slug}'' = ''solutions/{language}/{slug}''"
  by (simp add: replaceAll_def startsWith_def)

lemma template_slug_language:
  "collapseRuns (\<lambda>c. c = CHR ''/'') CHR ''/'' False
     (replaceAll ''{language}'' ''python3''
        (replaceAll ''{slug}'' (sanitize ''Two Sum!!'') ''solutions/{language}/{slug}''))
   = ''solutions/python3/two-sum''"
  by code_simp

section \<open>Sanitisation of the slug\<close>

text \<open>
  C6 (as amended). With the template \<^verbatim>\<open>solutions/{language}/{slug}\<close>, the slug
  \<^verbatim>\<open>Two Sum!!\<close>, the language \<^verbatim>\<open>python3\<close> and any file name, \<open>generateFilePath\<close>
  returns \<^verbatim>\<open>solutions/python3/two-sum\<close>, whatever the category is and whether it is given
  or not: the slug is sanitised to \<^verbatim>\<open>two-sum\<close>.
\<close>

theorem generateFilePath_two_sum:
  "sanitize ''Two Sum!!'' = ''two-sum''
   \<and> generateFilePath ''solutions/{language}/{slug}''
         \<lparr>pathData.category = c, filename = Some f, slug = Some ''Two Sum!!'',
          pathData.language = Some ''python3''\<rparr>
       = Inr ''solutions/python3/two-sum''"
proof -
  have s: "sanitize ''Two Sum!!'' = ''two-sum''" by code_simp
  have g: "generateFilePath ''solutions/{language}/{slug}''
         \<lparr>pathData.category = c, filename = Some f, slug = Some ''Two Sum!!'',
          pathData.language = Some ''python3''\<rparr>
       = Inr ''solutions/python3/two-sum''"
    unfolding generateFilePath_def
    by (simp only: pathData.simps option.case Let_def toStringOpt_def
          template_no_category template_no_filename template_slug_language)
  from s g show ?thesis by (rule conjI)
qed

theorem generateFilePath_two_sum_witness:
  "generateFilePath ''solutions/{language}/{slug}''
     \<lparr>pathData.category = None, filename = Some ''two-sum.py'', slug = Some ''Two Sum!!'',
      pathData.language = Some ''python3''\<rparr>
   = Inr ''solutions/python3/two-sum''"
  by (rule generateFilePath_two_sum [THEN conjunct2])

text \<open>
  The claim as stated fails at the call the specification writes, which gives the slug and
  the language only: the function lower-cases \<^verbatim>\<open>data.filename\<close> first, and raises when
  there is none.
\<close>

theorem generateFilePath_two_sum_counterexample:
  "generateFilePath ''solutions/{language}/{slug}''
     \<lparr>pathData.category = None, filename = None, slug = Some ''Two Sum!!'',
      pathData.language = Some ''python3''\<rparr>
   = Inl TypeError"
  by (simp add: generateFilePath_def)

section \<open>What the path of a submission depends on\<close>

text \<open>
  C5 (as amended). The path derived for a submission is a function of its problem slug,
  its language, its category and the path template: two submissions that agree on these
  three fields get the same path under the same template, whatever their code, title,
  timestamp and URL are. The branch plays no part in the path.
\<close>

theorem targetPath_determined:
  assumes "sub_problemSlug d1 = sub_problemSlug d2"
    and "sub_language d1 = sub_language d2"
    and "sub_category d1 = sub_category d2"
  shows "targetPath template d1 = targetPath template d2"
  using assms by (simp add: targetPath_def)

theorem targetPath_determined_witness:
  "targetPath ''hackerrank/{category}/{filename}''
     \<lparr>sub_code = ''print(1)'', sub_language = ''python3'', sub_problemTitle = ''A'',
      sub_problemSlug = ''two-sum'', sub_category = ''algorithms'',
      sub_timestamp = ''2024-01-01T00:00:00.000Z'', sub_url = ''u1''\<rparr>
   = targetPath ''hackerrank/{category}/{filename}''
     \<lparr>sub_code = ''print(2)'', sub_language = ''python3'', sub_problemTitle = ''B'',
      sub_problemSlug = ''two-sum'', sub_category = ''algorithms'',
      sub_timestamp = ''2024-02-02T00:00:00.000Z'', sub_url = ''u2''\<rparr>"
  by (rule targetPath_determined) simp_all

text \<open>
  The claim as stated fails: two submissions with the same slug and language and
  different categories get different paths under the default template.
\<close>

theorem targetPath_determined_counterexample:
  "targetPath ''hackerrank/{category}/{filename}''
     \<lparr>sub_code = ''print(1)'', sub_language = ''python3'', sub_problemTitle = ''A'',
      sub_problemSlug = ''two-sum'', sub_category = ''algorithms'',
      sub_timestamp = ''t'', sub_url = ''u''\<rparr>
     = Inr ''hackerrank/algorithms/two-sum-py''
   \<and> targetPath ''hackerrank/{category}/{filename}''
     \<lparr>sub_code = ''print(1)'', sub_language = ''python3'', sub_problemTitle = ''A'',
      sub_problemSlug = ''two-sum'', sub_category = ''misc'',
      sub_timestamp = ''t'', sub_url = ''u''\<rparr>
     = Inr ''hackerrank/misc/two-sum-py''"
  by code_simp

lemma getSubmissions_add_fresh:
  assumes "\<not> list_ex (\<lambda>sub. problemSlug sub = problemSlug r \<and> language sub = language r
                           \<and> withinWindow dateValue (timestamp sub) (timestamp r))
             (getSubmissions st)"
  shows "getSubmissions (addSubmissionRecord dateValue r st) = getSubmissions st @ [r]"
  using assms by (simp add: addSubmissionRecord_def getSubmissions_def Let_def)

lemma getSubmissions_add_dup:
  assumes "list_ex (\<lambda>sub. problemSlug sub = problemSlug r \<and> language sub = language r
                           \<and> withinWindow dateValue (timestamp sub) (timestamp r))
             (getSubmissions st)"
  shows "addSubmissionRecord dateValue r st = st"
  using assms by (simp add: addSubmissionRecord_def getSubmissions_def Let_def)

lemma withinWindow_Some:
  "dateValue a = Some x \<Longrightarrow> dateValue b = Some y \<Longrightarrow>
     withinWindow dateValue a b = (\<bar>x - y\<bar> < 60000)"
  by (simp add: withinWindow_def)

section \<open>The deduplication window of the history\<close>

text \<open>
  C3 (as amended). Take two history records with the same problem slug and language whose
  timestamps are valid dates, and a history that holds no record with that slug and
  language. Appending both leaves one more record (the first; the second append changes
  nothing) when the timestamps are less than 60 seconds apart, and two more records when
  they are 60 seconds or more apart.
\<close>

theorem addSubmissionRecord_window:
  assumes key: "problemSlug r1 = problemSlug r2" "language r1 = language r2"
    and t1: "dateValue (timestamp r1) = Some t1"
    and t2: "dateValue (timestamp r2) = Some t2"
    and fresh: "\<forall>sub \<in> set (getSubmissions st).
        \<not> (problemSlug sub = problemSlug r1 \<and> language sub = language r1)"
  shows "(\<bar>t1 - t2\<bar> < 60000 \<longrightarrow>
           addSubmissionRecord dateValue r2 (addSubmissionRecord dateValue r1 st)
             = addSubmissionRecord dateValue r1 st
         \<and> getSubmissions (addSubmissionRecord dateValue r2 (addSubmissionRecord dateValue r1 st))
             = getSubmissions st @ [r1])
       \<and> (60000 \<le> \<bar>t1 - t2\<bar> \<longrightarrow>
           getSubmissions (addSubmissionRecord dateValue r2 (addSubmissionRecord dateValue r1 st))
             = getSubmissions st @ [r1, r2])"
proof -
  let ?st1 = "addSubmissionRecord dateValue r1 st"
  have no1: "\<not> list_ex (\<lambda>sub. problemSlug sub = problemSlug r1 \<and> language sub = language r1
                           \<and> withinWindow dateValue (timestamp sub) (timestamp r1))
             (getSubmissions st)"
    using fresh unfolding list_ex_iff by blast
  have one: "getSubmissions ?st1 = getSubmissions st @ [r1]"
    using no1 by (rule getSubmissions_add_fresh)
  have w: "withinWindow dateValue (timestamp r1) (timestamp r2) = (\<bar>t1 - t2\<bar> < 60000)"
    using t1 t2 by (rule withinWindow_Some)
  have ex: "list_ex (\<lambda>sub. problemSlug sub = problemSlug r2 \<and> language sub = language r2
                           \<and> withinWindow dateValue (timestamp sub) (timestamp r2))
             (getSubmissions ?st1) = (\<bar>t1 - t2\<bar> < 60000)"
    unfolding one list_ex_iff using fresh key w by auto
  have near: "\<bar>t1 - t2\<bar> < 60000 \<longrightarrow>
           addSubmissionRecord dateValue r2 ?st1 = ?st1
         \<and> getSubmissions (addSubmissionRecord dateValue r2 ?st1) = getSubmissions st @ [r1]"
  proof
    assume "\<bar>t1 - t2\<bar> < 60000"
    with ex have "addSubmissionRecord dateValue r2 ?st1 = ?st1"
      by (simp add: getSubmissions_add_dup)
    then show "addSubmissionRecord dateValue r2 ?st1 = ?st1
         \<and> getSubmissions (addSubmissionRecord dateValue r2 ?st1) = getSubmissions st @ [r1]"
      using one by simp
  qed
  have far: "60000 \<le> \<bar>t1 - t2\<bar> \<longrightarrow>
           getSubmissions (addSubmissionRecord dateValue r2 ?st1) = getSubmissions st @ [r1, r2]"
  proof
    assume "60000 \<le> \<bar>t1 - t2\<bar>"
    with ex have "getSubmissions (addSubmissionRecord dateValue r2 ?st1)
        = getSubmissions ?st1 @ [r2]"
      by (simp add: getSubmissions_add_fresh)
    then show "getSubmissions (addSubmissionRecord dateValue r2 ?st1)
        = getSubmissions st @ [r1, r2]"
      using one by simp
  qed
  from near far show ?thesis by (rule conjI)
qed


theorem addSubmissionRecord_window_witness:
  "getSubmissions
     (addSubmissionRecord isoDates (recordAt ''2024-01-01T00:00:59.999Z'')
        (addSubmissionRecord isoDates (recordAt ''2024-01-01T00:00:00.000Z'') emptyStorage))
     = [recordAt ''2024-01-01T00:00:00.000Z'']
   \<and> getSubmissions
     (addSubmissionRecord isoDates (recordAt ''2024-01-01T00:01:01.000Z'')
        (addSubmissionRecord isoDates (recordAt ''2024-01-01T00:00:00.000Z'') emptyStorage))
     = [recordAt ''2024-01-01T00:00:00.000Z'', recordAt ''2024-01-01T00:01:01.000Z'']"
proof -
  have k: "problemSlug (recordAt a) = problemSlug (recordAt b)"
      "language (recordAt a) = language (recordAt b)" for a b
    by (simp_all add: recordAt_def)
  have d0: "isoDates (timestamp (recordAt ''2024-01-01T00:00:00.000Z'')) = Some 1704067200000"
    by code_simp
  have d1: "isoDates (timestamp (recordAt ''2024-01-01T00:00:59.999Z'')) = Some 1704067259999"
    by code_simp
  have d2: "isoDates (timestamp (recordAt ''2024-01-01T00:01:01.000Z'')) = Some 1704067261000"
    by code_simp
  have e: "getSubmissions emptyStorage = []"
    by (simp add: getSubmissions_def emptyStorage_def)
  have f: "\<forall>sub \<in> set (getSubmissions emptyStorage).
      \<not> (problemSlug sub = problemSlug (recordAt ''2024-01-01T00:00:00.000Z'')
         \<and> language sub = language (recordAt ''2024-01-01T00:00:00.000Z''))"
    by (simp add: e)
  have near: "\<bar>1704067200000 - 1704067259999\<bar> < (60000 :: int)" by simp
  have far: "(60000 :: int) \<le> \<bar>1704067200000 - 1704067261000\<bar>" by simp
  from addSubmissionRecord_window [OF k d0 d1 f, THEN conjunct1, THEN mp, OF near, THEN conjunct2]
    addSubmissionRecord_window [OF k d0 d2 f, THEN conjunct2, THEN mp, OF far]
  show ?thesis by (simp add: e)
qed

text \<open>
  The claim as stated fails at the boundary: two records whose timestamps are exactly 60
  seconds apart, which is at most 60 seconds, are both stored.
\<close>

theorem addSubmissionRecord_window_counterexample:
  "isoDates ''2024-01-01T00:00:00.000Z'' = Some 1704067200000
   \<and> isoDates ''2024-01-01T00:01:00.000Z'' = Some (1704067200000 + 60000)
   \<and> getSubmissions
     (addSubmissionRecord isoDates (recordAt ''2024-01-01T00:01:00.000Z'')
        (addSubmissionRecord isoDates (recordAt ''2024-01-01T00:00:00.000Z'') emptyStorage))
     = [recordAt ''2024-01-01T00:00:00.000Z'', recordAt ''2024-01-01T00:01:00.000Z'']"
  by code_simp

section \<open>Configuration and credential checks come before any write\<close>

lemma validateToken_answer:
  "fetch (GetUser token) r = (resp, r1) \<Longrightarrow>
     validateToken fetch token (r, log)
       = ((case resp of None \<Rightarrow> False | Some x \<Rightarrow> ok x), (r1, log @ [GetUser token]))"
  by (simp add: validateToken_def doFetch_def split: option.splits)

lemma getFileSha_extends:
  "getFileSha fetch token owner repo path br (r, log) = (res, w') \<Longrightarrow>
     \<exists>r'. w' = (r', log @ [GetContents token owner repo path br])"
  by (auto simp: getFileSha_def doFetch_def split: prod.splits option.splits if_splits)

lemma createOrUpdateFile_extends:
  assumes "createOrUpdateFile fetch token owner repo path content message br (r, log) = (res, w')"
  shows "\<exists>r' rest. w' = (r', log @ rest)"
proof -
  obtain g w1 where g: "getFileSha fetch token owner repo path br (r, log) = (g, w1)"
    by (cases "getFileSha fetch token owner repo path br (r, log)")
  then obtain r1 where w1: "w1 = (r1, log @ [GetContents token owner repo path br])"
    using getFileSha_extends [of fetch token owner repo path br r log g w1] by auto
  show ?thesis
  proof (cases g)
    case (Inl e)
    with assms g w1 show ?thesis
      by (auto simp: createOrUpdateFile_def Let_def)
  next
    case (Inr sha)
    with assms g w1 show ?thesis
      by (auto simp: createOrUpdateFile_def Let_def doFetch_def
            split: prod.splits option.splits if_splits)
  qed
qed

lemma handlePushToGitHub_valid_extends:
  assumes cfg: "truthyOpt (github_token st)" "truthyOpt (github_repo st)"
    and v: "validateToken fetch (toStringOpt (github_token st)) (r, log) = (True, (ra, loga))"
    and run: "handlePushToGitHub fetch dateValue data st (r, log) = (res, st', (r', log'))"
  shows "\<exists>rest. log' = loga @ rest"
proof -
  have none: "\<exists>rest. loga = loga @ rest" by simp
  show ?thesis
    using cfg v run none
    by (auto simp: handlePushToGitHub_def Let_def
          split: list.splits sum.splits prod.splits if_splits
          dest!: createOrUpdateFile_extends)
qed

text \<open>
  C9. When the stored token or the stored repository name is missing or empty,
  \<open>handlePushToGitHub\<close> fails with the configuration error and issues no request at
  all. When both are present, its first request is \<^verbatim>\<open>GET /user\<close> with the stored token;
  when the remote does not answer that request, or answers it with a status that is not
  OK, the function fails with the credential error, and the validation request is the
  only request it has issued: a read. In both cases the storage is unchanged. In every
  run with a complete configuration the requests issued start with the validation
  request, and a write is among them only when the remote's answer to it was OK.
\<close>

theorem handlePushToGitHub_rejects:
  "(\<not> truthyOpt (github_token st) \<or> \<not> truthyOpt (github_repo st) \<longrightarrow>
      handlePushToGitHub fetch dateValue data st (r, log) = (Inl ConfigMissing, st, (r, log)))
   \<and> (truthyOpt (github_token st) \<and> truthyOpt (github_repo st)
        \<and> fetch (GetUser (toStringOpt (github_token st))) r = (resp, r1)
        \<and> (resp = None \<or> (\<exists>x. resp = Some x \<and> \<not> ok x)) \<longrightarrow>
      handlePushToGitHub fetch dateValue data st (r, log)
        = (Inl CredentialInvalid, st, (r1, log @ [GetUser (toStringOpt (github_token st))]))
      \<and> filter isWrite (log @ [GetUser (toStringOpt (github_token st))]) = filter isWrite log)
   \<and> (truthyOpt (github_token st) \<and> truthyOpt (github_repo st)
        \<and> handlePushToGitHub fetch dateValue data st (r, log) = (res, st', (r', log')) \<longrightarrow>
      (\<exists>rest. log' = log @ GetUser (toStringOpt (github_token st)) # rest
         \<and> (list_ex isWrite rest \<longrightarrow>
              (\<exists>x. fst (fetch (GetUser (toStringOpt (github_token st))) r) = Some x \<and> ok x))))"
proof -
  let ?token = "toStringOpt (github_token st)"
  have cfg: "\<not> truthyOpt (github_token st) \<or> \<not> truthyOpt (github_repo st) \<longrightarrow>
      handlePushToGitHub fetch dateValue data st (r, log) = (Inl ConfigMissing, st, (r, log))"
    by (simp add: handlePushToGitHub_def)
  have refused: "handlePushToGitHub fetch dateValue data st (r, log)
        = (Inl CredentialInvalid, st, (b, log @ [GetUser ?token]))"
    if c: "truthyOpt (github_token st)" "truthyOpt (github_repo st)"
      and f: "fetch (GetUser ?token) r = (a, b)"
      and bad: "a = None \<or> (\<exists>x. a = Some x \<and> \<not> ok x)" for a b
  proof -
    from bad have "(case a of None \<Rightarrow> False | Some x \<Rightarrow> ok x) = False"
      by (auto split: option.splits)
    with validateToken_answer [of fetch ?token r a b log] f
    have "validateToken fetch ?token (r, log) = (False, (b, log @ [GetUser ?token]))"
      by simp
    with c show ?thesis
      by (simp add: handlePushToGitHub_def Let_def)
  qed
  have cred: "truthyOpt (github_token st) \<and> truthyOpt (github_repo st)
        \<and> fetch (GetUser ?token) r = (resp, r1)
        \<and> (resp = None \<or> (\<exists>x. resp = Some x \<and> \<not> ok x)) \<longrightarrow>
      handlePushToGitHub fetch dateValue data st (r, log)
        = (Inl CredentialInvalid, st, (r1, log @ [GetUser ?token]))
      \<and> filter isWrite (log @ [GetUser ?token]) = filter isWrite log"
    using refused by simp
  have order: "truthyOpt (github_token st) \<and> truthyOpt (github_repo st)
        \<and> handlePushToGitHub fetch dateValue data st (r, log) = (res, st', (r', log')) \<longrightarrow>
      (\<exists>rest. log' = log @ GetUser ?token # rest
         \<and> (list_ex isWrite rest \<longrightarrow>
              (\<exists>x. fst (fetch (GetUser ?token) r) = Some x \<and> ok x)))"
  proof
    assume h: "truthyOpt (github_token st) \<and> truthyOpt (github_repo st)
        \<and> handlePushToGitHub fetch dateValue data st (r, log) = (res, st', (r', log'))"
    obtain a b where f: "fetch (GetUser ?token) r = (a, b)"
      by (cases "fetch (GetUser ?token) r")
    show "\<exists>rest. log' = log @ GetUser ?token # rest
         \<and> (list_ex isWrite rest \<longrightarrow>
              (\<exists>x. fst (fetch (GetUser ?token) r) = Some x \<and> ok x))"
    proof (cases "a = None \<or> (\<exists>x. a = Some x \<and> \<not> ok x)")
      case True
      with h f refused have "log' = log @ [GetUser ?token]" by simp
      then have "log' = log @ GetUser ?token # [] \<and> \<not> list_ex isWrite []" by simp
      then show ?thesis by blast
    next
      case False
      then obtain x where x: "a = Some x" "ok x" by auto
      with validateToken_answer [of fetch ?token r a b log] f
      have v: "validateToken fetch ?token (r, log) = (True, (b, log @ [GetUser ?token]))"
        by simp
      from h have c: "truthyOpt (github_token st)" "truthyOpt (github_repo st)"
        and run: "handlePushToGitHub fetch dateValue data st (r, log) = (res, st', (r', log'))"
        by simp_all
      obtain rest where "log' = (log @ [GetUser ?token]) @ rest"
        using handlePushToGitHub_valid_extends
          [where fetch = fetch and st = st and r = r and log = log and ra = b
             and loga = "log @ [GetUser ?token]" and dateValue = dateValue and data = data
             and res = res and st' = st' and r' = r' and log' = log', OF c v run]
        by auto
      then have "log' = log @ GetUser ?token # rest" by simp
      moreover have "\<exists>y. fst (fetch (GetUser ?token) r) = Some y \<and> ok y"
        using f x by simp
      ultimately show ?thesis by blast
    qed
  qed
  show ?thesis
    by (rule conjI [OF cfg conjI [OF cred order]])
qed


theorem handlePushToGitHub_rejects_witness:
  "handlePushToGitHub (casFetch id) isoDates sampleSubmission
       (sampleConfig\<lparr>github_repo := Some []\<rparr>) (sampleStore, [])
     = (Inl ConfigMissing, sampleConfig\<lparr>github_repo := Some []\<rparr>, (sampleStore, []))
   \<and> handlePushToGitHub (casFetch id) isoDates sampleSubmission
       (sampleConfig\<lparr>github_token := None\<rparr>) (sampleStore, [])
     = (Inl ConfigMissing, sampleConfig\<lparr>github_token := None\<rparr>, (sampleStore, []))
   \<and> casFetch id (GetUser ''ghp_bad'') sampleStore = (Some (plainResponse 401), sampleStore)
   \<and> \<not> ok (plainResponse 401)
   \<and> handlePushToGitHub (casFetch id) isoDates sampleSubmission sampleConfig (sampleStore, [])
     = (Inl CredentialInvalid, sampleConfig, (sampleStore, [GetUser ''ghp_bad'']))
   \<and> map isWrite
        (snd (snd (snd (handlePushToGitHub (casFetch id) isoDates sampleSubmission
           (sampleConfig\<lparr>github_token := Some ''ghp_good''\<rparr>) (sampleStore, [])))))
     = [False, False, True]
   \<and> (\<exists>rest.
        snd (snd (snd (handlePushToGitHub (casFetch id) isoDates sampleSubmission
           (sampleConfig\<lparr>github_token := Some ''ghp_good''\<rparr>) (sampleStore, []))))
          = [] @ GetUser ''ghp_good'' # rest
        \<and> (list_ex isWrite rest \<longrightarrow>
             (\<exists>x. fst (casFetch id (GetUser ''ghp_good'') sampleStore) = Some x \<and> ok x)))"
proof -
  let ?good = "sampleConfig\<lparr>github_token := Some ''ghp_good''\<rparr>"
  let ?run = "handlePushToGitHub (casFetch id) isoDates sampleSubmission ?good (sampleStore, [])"
  have a: "\<not> truthyOpt (github_token (sampleConfig\<lparr>github_repo := Some []\<rparr>))
      \<or> \<not> truthyOpt (github_repo (sampleConfig\<lparr>github_repo := Some []\<rparr>))"
    by (simp add: truthyOpt_def)
  have b: "\<not> truthyOpt (github_token (sampleConfig\<lparr>github_token := None\<rparr>))
      \<or> \<not> truthyOpt (github_repo (sampleConfig\<lparr>github_token := None\<rparr>))"
    by (simp add: truthyOpt_def)
  have t: "toStringOpt (github_token sampleConfig) = ''ghp_bad''"
    by (simp add: sampleConfig_def toStringOpt_def)
  have f: "casFetch id (GetUser ''ghp_bad'') sampleStore = (Some (plainResponse 401), sampleStore)"
    by code_simp
  have n: "\<not> ok (plainResponse 401)"
    by (simp add: ok_def plainResponse_def)
  have c: "truthyOpt (github_token sampleConfig) \<and> truthyOpt (github_repo sampleConfig)
      \<and> casFetch id (GetUser (toStringOpt (github_token sampleConfig))) sampleStore
          = (Some (plainResponse 401), sampleStore)
      \<and> (Some (plainResponse 401) = None
          \<or> (\<exists>x. Some (plainResponse 401) = Some x \<and> \<not> ok x))"
    using f n by (simp add: t) (simp add: sampleConfig_def truthyOpt_def)
  have bad: "handlePushToGitHub (casFetch id) isoDates sampleSubmission sampleConfig
        (sampleStore, [])
      = (Inl CredentialInvalid, sampleConfig, (sampleStore, [GetUser ''ghp_bad'']))"
    using handlePushToGitHub_rejects
      [where fetch = "casFetch id" and st = sampleConfig and r = sampleStore,
       THEN conjunct2, THEN conjunct1, THEN mp, OF c, THEN conjunct1]
    by (simp add: t)
  have w: "map isWrite (snd (snd (snd ?run))) = [False, False, True]"
    by code_simp
  have tg: "toStringOpt (github_token ?good) = ''ghp_good''"
    by (simp add: toStringOpt_def)
  have d: "truthyOpt (github_token ?good) \<and> truthyOpt (github_repo ?good)
      \<and> ?run = (fst ?run, fst (snd ?run), fst (snd (snd ?run)), snd (snd (snd ?run)))"
    by (simp add: sampleConfig_def truthyOpt_def)
  have g: "\<exists>rest. snd (snd (snd ?run)) = [] @ GetUser ''ghp_good'' # rest
        \<and> (list_ex isWrite rest \<longrightarrow>
             (\<exists>x. fst (casFetch id (GetUser ''ghp_good'') sampleStore) = Some x \<and> ok x))"
    using handlePushToGitHub_rejects
      [where fetch = "casFetch id" and r = sampleStore,
       THEN conjunct2, THEN conjunct2, THEN mp, OF d]
    unfolding tg .
  show ?thesis
    by (rule conjI [OF handlePushToGitHub_rejects [THEN conjunct1, THEN mp, OF a]
          conjI [OF handlePushToGitHub_rejects [THEN conjunct1, THEN mp, OF b]
            conjI [OF f conjI [OF n conjI [OF bad conjI [OF w g]]]]]])
qed

section \<open>Compare-and-swap through createOrUpdateFile\<close>










end
